theory Spec2Isabelle
  imports Main "HOL-Library.Multiset"
begin

section \<open>Video IO factory: first-match selection\<close>

text \<open>
  Source: \<^verbatim>\<open>Modules/Video/IO/src/itkVideoIOFactory.cxx\<close>,
  \<^verbatim>\<open>VideoIOFactory::CreateVideoIO(IOModeEnum mode, const char * arg)\<close>.
  The three enumerators are the ones the file's \<^verbatim>\<open>operator<<\<close> prints.
\<close>

datatype IOModeEnum = ReadFileMode | ReadCameraMode | WriteMode

text \<open>
  A \<^verbatim>\<open>VideoIOBase\<close> is seen through the three virtual capability queries the
  factory calls. The objects that \<^verbatim>\<open>ObjectFactoryBase::CreateAllInstance\<close> hands
  back are either such handlers or objects of some other class.
\<close>

record VideoIOBase =
  CanReadFile :: "string \<Rightarrow> bool"
  CanReadCamera :: "int \<Rightarrow> bool"
  CanWriteFile :: "string \<Rightarrow> bool"

datatype LightObject = VideoIOObject VideoIOBase | OtherObject

text \<open>
  What the routine can raise: the ITK exception built by
  \<^verbatim>\<open>itkSpecializedMessageExceptionMacro\<close>, and the two exceptions of
  \<^verbatim>\<open>std::stoi\<close>.
\<close>

datatype exn = ExceptionObject string | std_invalid_argument | std_out_of_range

text \<open>\<^verbatim>\<open>dynamic_cast<VideoIOBase *>(allobject.GetPointer())\<close>: null for another class.\<close>

fun dynamic_cast_VideoIOBase :: "LightObject \<Rightarrow> VideoIOBase option" where
  "dynamic_cast_VideoIOBase (VideoIOObject io) = Some io"
| "dynamic_cast_VideoIOBase OtherObject = None"

text \<open>
  \<^verbatim>\<open>std::stoi(arg)\<close> (C++ standard library, base 10): leading white space is
  skipped, an optional sign is read, then the longest run of decimal digits; no digit
  raises \<^verbatim>\<open>std::invalid_argument\<close>, a value outside the 32-bit \<^verbatim>\<open>int\<close> raises
  \<^verbatim>\<open>std::out_of_range\<close>; what follows the digits is ignored.
\<close>

definition isspace :: "char \<Rightarrow> bool" where
  "isspace c = (c \<in> set [CHR '' '', CHR 0x09, CHR 0x0A, CHR 0x0B, CHR 0x0C, CHR 0x0D])"

definition isdigit :: "char \<Rightarrow> bool" where
  "isdigit c = (c \<in> set ''0123456789'')"

definition digit_value :: "char \<Rightarrow> int" where
  "digit_value c = int (of_char c) - 48"

definition decimal_value :: "string \<Rightarrow> int" where
  "decimal_value ds = foldl (\<lambda>acc c. 10 * acc + digit_value c) 0 ds"

definition INT_MIN :: int where
  "INT_MIN = - 2147483648"

definition INT_MAX :: int where
  "INT_MAX = 2147483647"

definition stoi :: "string \<Rightarrow> exn + int" where
  "stoi str =
     (let t = dropWhile isspace str;
          neg = (case t of [] \<Rightarrow> False | c # _ \<Rightarrow> c = CHR ''-'');
          u = (case t of [] \<Rightarrow> [] | c # r \<Rightarrow> if c = CHR ''-'' \<or> c = CHR ''+'' then r else t);
          ds = takeWhile isdigit u;
          v = (if neg then - decimal_value ds else decimal_value ds)
      in if ds = [] then Inl std_invalid_argument
         else if v < INT_MIN \<or> INT_MAX < v then Inl std_out_of_range
         else Inr v)"

text \<open>
  First loop (lines 31-45): every created instance is cast; a handler is appended to
  \<^verbatim>\<open>possibleVideoIO\<close>, anything else raises at once.
\<close>

fun collectPossibleVideoIO :: "LightObject list \<Rightarrow> VideoIOBase list \<Rightarrow> exn + VideoIOBase list" where
  "collectPossibleVideoIO [] possibleVideoIO = Inr possibleVideoIO"
| "collectPossibleVideoIO (allobject # rest) possibleVideoIO =
     (case dynamic_cast_VideoIOBase allobject of
        Some io \<Rightarrow> collectPossibleVideoIO rest (possibleVideoIO @ [io])
      | None \<Rightarrow> Inl (ExceptionObject ''VideoIO factory did not return a VideoIOBase''))"

text \<open>
  The capability queries are the only calls the routine makes on a candidate. To speak
  about which of them run, and in which order, every call is appended to a log.
\<close>

datatype probe =
    AskedCanReadFile VideoIOBase string
  | AskedCanReadCamera VideoIOBase int
  | AskedCanWriteFile VideoIOBase string

text \<open>
  Second loop (lines 47-77). In camera mode \<^verbatim>\<open>std::stoi(arg)\<close> runs inside the loop
  body, before the query, once for every candidate reached.
\<close>

fun probeLoop ::
  "IOModeEnum \<Rightarrow> string \<Rightarrow> VideoIOBase list \<Rightarrow> probe list \<Rightarrow> (exn + VideoIOBase option) \<times> probe list" where
  "probeLoop mode arg [] log = (Inr None, log)"
| "probeLoop mode arg (j # rest) log =
     (case mode of
        ReadFileMode \<Rightarrow>
          (if CanReadFile j arg then (Inr (Some j), log @ [AskedCanReadFile j arg])
           else probeLoop mode arg rest (log @ [AskedCanReadFile j arg]))
      | ReadCameraMode \<Rightarrow>
          (case stoi arg of
             Inl e \<Rightarrow> (Inl e, log)
           | Inr cameraIndex \<Rightarrow>
               (if CanReadCamera j cameraIndex
                then (Inr (Some j), log @ [AskedCanReadCamera j cameraIndex])
                else probeLoop mode arg rest (log @ [AskedCanReadCamera j cameraIndex])))
      | WriteMode \<Rightarrow>
          (if CanWriteFile j arg then (Inr (Some j), log @ [AskedCanWriteFile j arg])
           else probeLoop mode arg rest (log @ [AskedCanWriteFile j arg])))"

text \<open>
  The whole routine. Its first argument is what
  \<^verbatim>\<open>ObjectFactoryBase::CreateAllInstance("itkVideoIOBase")\<close> returned, in registration
  order. The result is the returned pointer (\<open>None\<close> for \<^verbatim>\<open>nullptr\<close>) or the
  exception, together with the log of capability queries made.
\<close>

definition CreateVideoIO ::
  "LightObject list \<Rightarrow> IOModeEnum \<Rightarrow> string \<Rightarrow> (exn + VideoIOBase option) \<times> probe list" where
  "CreateVideoIO allInstances mode arg =
     (case collectPossibleVideoIO allInstances [] of
        Inl e \<Rightarrow> (Inl e, [])
      | Inr possibleVideoIO \<Rightarrow> probeLoop mode arg possibleVideoIO [])"

text \<open>
  The selection contract in the words of the specification, to compare the routine with:
  the capability query that matches the mode, and the query a probe of a candidate records.
\<close>

definition capability :: "IOModeEnum \<Rightarrow> string \<Rightarrow> int \<Rightarrow> VideoIOBase \<Rightarrow> bool" where
  "capability mode arg cameraIndex j =
     (case mode of
        ReadFileMode \<Rightarrow> CanReadFile j arg
      | ReadCameraMode \<Rightarrow> CanReadCamera j cameraIndex
      | WriteMode \<Rightarrow> CanWriteFile j arg)"

definition probeOf :: "IOModeEnum \<Rightarrow> string \<Rightarrow> int \<Rightarrow> VideoIOBase \<Rightarrow> probe" where
  "probeOf mode arg cameraIndex j =
     (case mode of
        ReadFileMode \<Rightarrow> AskedCanReadFile j arg
      | ReadCameraMode \<Rightarrow> AskedCanReadCamera j cameraIndex
      | WriteMode \<Rightarrow> AskedCanWriteFile j arg)"

text \<open>The candidates probed by a first-match scan: all that decline, then the first that accepts.\<close>

fun probedPrefix :: "('a \<Rightarrow> bool) \<Rightarrow> 'a list \<Rightarrow> 'a list" where
  "probedPrefix P [] = []"
| "probedPrefix P (x # xs) = (if P x then [x] else x # probedPrefix P xs)"

text \<open>The handlers among the created instances, in order.\<close>

definition handlersOf :: "LightObject list \<Rightarrow> VideoIOBase list" where
  "handlersOf allInstances = List.map_filter dynamic_cast_VideoIOBase allInstances"

text \<open>Example handlers for the concrete runs below.\<close>

definition acceptsAll :: VideoIOBase where
  "acceptsAll = \<lparr>CanReadFile = (\<lambda>_. True), CanReadCamera = (\<lambda>_. True), CanWriteFile = (\<lambda>_. True)\<rparr>"

definition acceptsNone :: VideoIOBase where
  "acceptsNone = \<lparr>CanReadFile = (\<lambda>_. False), CanReadCamera = (\<lambda>_. False), CanWriteFile = (\<lambda>_. False)\<rparr>"

definition aviOnly :: VideoIOBase where
  "aviOnly = \<lparr>CanReadFile = (\<lambda>f. f = ''clip.avi''), CanReadCamera = (\<lambda>i. i = 0),
              CanWriteFile = (\<lambda>f. f = ''clip.avi'')\<rparr>"

section \<open>Regions, grids and kernels\<close>

text \<open>
  The header \<^verbatim>\<open>itkNeighborhoodOperatorImageFilter.h\<close> declares the filter. The
  classes it builds on (\<^verbatim>\<open>ImageRegion\<close>, \<^verbatim>\<open>Image\<close>, \<^verbatim>\<open>Neighborhood\<close>,
  \<^verbatim>\<open>ZeroFluxNeumannBoundaryCondition\<close>) and the bodies of the two methods it only
  declares (\<^verbatim>\<open>GenerateInputRequestedRegion\<close>, \<^verbatim>\<open>DynamicThreadedGenerateData\<close>, in
  \<^verbatim>\<open>itkNeighborhoodOperatorImageFilter.hxx\<close>) are not among the source files; they are
  modelled from sections 3 and 4 of the specification.

  The dimension is a template constant of the source; here a list holds one entry per
  axis.
\<close>

text \<open>
  Modelled from the spec: the class \<^verbatim>\<open>ImageRegion\<close> is missing. "Region: an
  axis-aligned box described by an origin coordinate and a size per axis. Invariant: size
  components are non-negative". Per axis: the origin's index and the size.
\<close>

type_synonym ImageRegion = "(int \<times> nat) list"

text \<open>
  Modelled from the spec: membership of a coordinate in a region (class
  \<^verbatim>\<open>ImageRegion\<close>, missing), axis by axis; a coordinate of another dimension is not
  in the region.
\<close>

definition inAxis :: "int \<times> nat \<Rightarrow> int \<Rightarrow> bool" where
  "inAxis ax x = (fst ax \<le> x \<and> x < fst ax + int (snd ax))"

definition inRegion :: "ImageRegion \<Rightarrow> int list \<Rightarrow> bool" where
  "inRegion region c = list_all2 inAxis region c"

text \<open>
  Modelled from the spec: emptiness of a region (class \<^verbatim>\<open>ImageRegion\<close>, missing). "A
  region with any zero-size axis is empty".
\<close>

definition isEmptyRegion :: "ImageRegion \<Rightarrow> bool" where
  "isEmptyRegion region = (0 \<in> set (map snd region))"

text \<open>
  All tuples with one component from each list, the first axis varying fastest. It
  enumerates the coordinates of a region and the offsets of a kernel.
\<close>

fun cartesian :: "'a list list \<Rightarrow> 'a list list" where
  "cartesian [] = [[]]"
| "cartesian (xs # xss) = concat (map (\<lambda>rest. map (\<lambda>x. x # rest) xs) (cartesian xss))"

text \<open>
  Modelled from the spec: the iteration over a region (the region iterators are missing).
  "For every coordinate \<open>c\<close> in \<open>outputSubRegion\<close> (iteration order is unspecified/row-major
  by convention)".
\<close>

definition axisRange :: "int \<times> nat \<Rightarrow> int list" where
  "axisRange ax = map (\<lambda>n. fst ax + int n) [0..<snd ax]"

definition regionCoords :: "ImageRegion \<Rightarrow> int list list" where
  "regionCoords region = cartesian (map axisRange region)"

text \<open>
  Modelled from the spec: the class \<^verbatim>\<open>Image\<close> is missing. "Grid: an N-dimensional
  rectangular array of scalar or vector-valued elements, each identified by an integer
  coordinate tuple". \<open>extent\<close> is the grid's allocated region, \<open>pixel\<close> the element
  stored at a coordinate.
\<close>

record 'p Image =
  extent :: ImageRegion
  pixel :: "int list \<Rightarrow> 'p"

text \<open>
  Modelled from the spec: the class \<^verbatim>\<open>Neighborhood\<close> is missing. "Kernel: fixed-size
  weight array, one radius integer per axis, total length = product of (2*radius[i]+1)".
\<close>

record 'w Neighborhood =
  radius :: "nat list"
  weights :: "'w list"

text \<open>
  Modelled from the spec: the length a kernel's weight array must have (class
  \<^verbatim>\<open>Neighborhood\<close>, missing), "the neighborhood footprint implied by its radii".
\<close>

definition footprint :: "nat list \<Rightarrow> nat" where
  "footprint rad = prod_list (map (\<lambda>r. 2 * r + 1) rad)"

text \<open>
  Modelled from the spec: the offsets of a kernel's footprint (class \<^verbatim>\<open>Neighborhood\<close>,
  missing), "ordered consistently with the kernel's weight array": on every axis from
  \<open>- radius\<close> to \<open>radius\<close>, the first axis varying fastest.
\<close>

definition axisOffsets :: "nat \<Rightarrow> int list" where
  "axisOffsets r = map (\<lambda>n. int n - int r) [0..<2 * r + 1]"

definition offsets :: "nat list \<Rightarrow> int list list" where
  "offsets rad = cartesian (map axisOffsets rad)"

text \<open>
  Modelled from the spec: the kernel "pre-mirrored (offset-reversed)" (\<^verbatim>\<open>mirror()\<close> in
  the header's class comment; class \<^verbatim>\<open>Neighborhood\<close>, missing). The weight of every
  offset moves to the negated offset, which reverses the weight array.
\<close>

definition mirror :: "'w Neighborhood \<Rightarrow> 'w Neighborhood" where
  "mirror k = k\<lparr>weights := rev (weights k)\<rparr>"

section \<open>Boundary policy\<close>

text \<open>
  Modelled from the spec: the class \<^verbatim>\<open>ImageBoundaryCondition\<close> is missing. Contract
  (4.2): "\<open>ValueAt(grid, coordinate)\<close>, defined for both in-bounds and out-of-bounds
  coordinates".
\<close>

type_synonym 'p BoundaryPolicy = "'p Image \<Rightarrow> int list \<Rightarrow> 'p"

text \<open>
  Modelled from the spec: the class \<^verbatim>\<open>ZeroFluxNeumannBoundaryCondition\<close> is missing.
  "For each axis independently, if the coordinate is below the valid minimum or above the
  valid maximum, clamp it to the nearest valid index on that axis; look up the resulting
  coordinate".
\<close>

definition clampAxis :: "int \<times> nat \<Rightarrow> int \<Rightarrow> int" where
  "clampAxis ax x =
     (let lo = fst ax; hi = fst ax + int (snd ax) - 1
      in if x < lo then lo else if hi < x then hi else x)"

definition ZeroFluxNeumannBoundaryCondition :: "'p BoundaryPolicy" where
  "ZeroFluxNeumannBoundaryCondition grid c = pixel grid (map2 clampAxis (extent grid) c)"

section \<open>Region geometry\<close>

text \<open>
  Modelled from the spec: the errors the engine and the region calculator report (4.1,
  4.3 and 7; the exception classes are missing): an empty required input region, an absent
  boundary policy, a weight array that does not match the radii, an output sub-region not
  contained in the allocated output grid.
\<close>

datatype engine_error =
    EmptyInputRegion
  | NoBoundaryPolicy
  | KernelLengthMismatch
  | RegionOutsideGrid

text \<open>
  Modelled from the spec: padding a region by the kernel radius (class
  \<^verbatim>\<open>ImageRegion\<close>, missing). "For each axis i: \<open>inputOrigin[i] = outputOrigin[i] -
  radius[i]\<close>, \<open>inputSize[i] = outputSize[i] + 2*radius[i]\<close>".
\<close>

definition padAxis :: "int \<times> nat \<Rightarrow> nat \<Rightarrow> int \<times> nat" where
  "padAxis ax r = (fst ax - int r, snd ax + 2 * r)"

definition PadByRadius :: "ImageRegion \<Rightarrow> nat list \<Rightarrow> ImageRegion" where
  "PadByRadius region rad = map2 padAxis region rad"

text \<open>
  Modelled from the spec: clipping a region against another (class \<^verbatim>\<open>ImageRegion\<close>,
  missing). "Clip (intersect) the padded region against \<open>fullInputExtent\<close>": per axis from
  the larger of the two first indices up to the smaller of the two ends, with size zero
  when they do not overlap.
\<close>

definition cropAxis :: "int \<times> nat \<Rightarrow> int \<times> nat \<Rightarrow> int \<times> nat" where
  "cropAxis ax bx =
     (let lo = max (fst ax) (fst bx);
          hi = min (fst ax + int (snd ax)) (fst bx + int (snd bx))
      in (lo, nat (hi - lo)))"

definition Crop :: "ImageRegion \<Rightarrow> ImageRegion \<Rightarrow> ImageRegion" where
  "Crop region bound = map2 cropAxis region bound"

text \<open>
  Modelled from the spec: the region geometry calculator (4.1), whose code (the body of
  \<^verbatim>\<open>GenerateInputRequestedRegion\<close>) is missing. "\<open>RequiredInputRegion(outputRegion,
  kernelRadius, fullInputExtent)\<close>": pad, clip, and "if the intersection is empty, this
  signals a configuration error: report it".
\<close>

definition RequiredInputRegion ::
  "ImageRegion \<Rightarrow> nat list \<Rightarrow> ImageRegion \<Rightarrow> engine_error + ImageRegion" where
  "RequiredInputRegion outputRegion kernelRadius fullInputExtent =
     (let clipped = Crop (PadByRadius outputRegion kernelRadius) fullInputExtent
      in if isEmptyRegion clipped then Inl EmptyInputRegion else Inr clipped)"

section \<open>The windowed engine\<close>

text \<open>
  The engine's numeric types are template parameters of the source (header lines 70-77):
  input pixels, kernel weights (\<^verbatim>\<open>OperatorValueType\<close>), the accumulation type
  (\<^verbatim>\<open>ComputingPixelType\<close>, taken from the absent \<^verbatim>\<open>NumericTraits\<close>) and output pixels.
  The conversions between them are parameters of the model; the accumulation type is any
  semiring, with exact arithmetic.
\<close>

record ('p, 'w, 'a, 'q) PixelTypes =
  inputToComputing :: "'p \<Rightarrow> 'a"
  weightToComputing :: "'w \<Rightarrow> 'a"
  computingToOutput :: "'a \<Rightarrow> 'q"

text \<open>
  Modelled from the spec: reading a neighbor (4.3, step 2b; the neighborhood iterator is
  missing). "Fetch the neighbor value via the grid directly if in-bounds, otherwise via
  the Boundary Policy".
\<close>

definition neighborValue :: "'p BoundaryPolicy \<Rightarrow> 'p Image \<Rightarrow> int list \<Rightarrow> 'p" where
  "neighborValue policy grid x = (if inRegion (extent grid) x then pixel grid x else policy grid x)"

text \<open>
  Modelled from the spec: the weighted sum at one coordinate (4.3, steps 2a-2c; the inner
  product of \<^verbatim>\<open>DynamicThreadedGenerateData\<close> is missing). "For every offset \<open>o\<close> in the
  kernel's footprint compute neighbor coordinate \<open>c + o\<close>; accumulate \<open>weight(o) *
  neighborValue\<close> into an accumulator of the accumulation type".
\<close>

definition accumulate ::
  "('p, 'w, 'a::semiring_1, 'q) PixelTypes \<Rightarrow> 'p BoundaryPolicy \<Rightarrow> 'p Image \<Rightarrow>
   'w Neighborhood \<Rightarrow> int list \<Rightarrow> 'a" where
  "accumulate nt policy grid k c =
     foldl (\<lambda>acc (w, off).
               acc + weightToComputing nt w * inputToComputing nt (neighborValue policy grid (map2 (+) c off)))
       0 (zip (weights k) (offsets (radius k)))"

text \<open>
  Modelled from the spec: the value written at one coordinate (4.3, step 2d; missing with
  \<^verbatim>\<open>DynamicThreadedGenerateData\<close>). "After all offsets are summed, cast the accumulator to
  the output storage type and write it to \<open>outputGrid[c]\<close>".
\<close>

definition innerProduct ::
  "('p, 'w, 'a::semiring_1, 'q) PixelTypes \<Rightarrow> 'p BoundaryPolicy \<Rightarrow> 'p Image \<Rightarrow>
   'w Neighborhood \<Rightarrow> int list \<Rightarrow> 'q" where
  "innerProduct nt policy grid k c = computingToOutput nt (accumulate nt policy grid k c)"

definition writePixel :: "'q Image \<Rightarrow> int list \<Rightarrow> 'q \<Rightarrow> 'q Image" where
  "writePixel grid c v = grid\<lparr>pixel := (pixel grid)(c := v)\<rparr>"

text \<open>
  Modelled from the spec: the engine (4.3 and 7), whose code (the body of
  \<^verbatim>\<open>DynamicThreadedGenerateData\<close>) is missing. "\<open>Apply(inputGrid, kernel,
  boundaryPolicy, outputSubRegion)\<close> writes into \<open>outputGrid[outputSubRegion]\<close>". Step 1:
  "if \<open>outputSubRegion\<close> is empty, return immediately (no-op)". Contract violations "fail
  fast with a descriptive error": an absent boundary policy, a "kernel length mismatched
  with declared radii", an "\<open>outputSubRegion\<close> not contained within the grid's allocated
  extent". Step 2: every coordinate of the sub-region is written once.
\<close>

definition Apply ::
  "('p, 'w, 'a::semiring_1, 'q) PixelTypes \<Rightarrow> 'p Image \<Rightarrow> 'w Neighborhood \<Rightarrow>
   'p BoundaryPolicy option \<Rightarrow> ImageRegion \<Rightarrow> 'q Image \<Rightarrow> engine_error + 'q Image" where
  "Apply nt inputGrid k boundaryPolicy outputSubRegion outputGrid =
     (if isEmptyRegion outputSubRegion then Inr outputGrid
      else case boundaryPolicy of
        None \<Rightarrow> Inl NoBoundaryPolicy
      | Some policy \<Rightarrow>
          if length (weights k) \<noteq> footprint (radius k) then Inl KernelLengthMismatch
          else if \<not> list_all (inRegion (extent outputGrid)) (regionCoords outputSubRegion)
          then Inl RegionOutsideGrid
          else Inr (foldl (\<lambda>g c. writePixel g c (innerProduct nt policy inputGrid k c))
                      outputGrid (regionCoords outputSubRegion)))"

text \<open>
  Modelled from the spec: the parallel partitioner (2 and 5; an external collaborator,
  missing), which "invokes the engine once per sub-region". The invocations are run one
  after the other in the order of the list; an error ends the run.
\<close>

fun ApplyEach ::
  "('p, 'w, 'a::semiring_1, 'q) PixelTypes \<Rightarrow> 'p Image \<Rightarrow> 'w Neighborhood \<Rightarrow>
   'p BoundaryPolicy option \<Rightarrow> ImageRegion list \<Rightarrow> 'q Image \<Rightarrow> engine_error + 'q Image" where
  "ApplyEach nt inputGrid k boundaryPolicy [] outputGrid = Inr outputGrid"
| "ApplyEach nt inputGrid k boundaryPolicy (r # rs) outputGrid =
     (case Apply nt inputGrid k boundaryPolicy r outputGrid of
        Inl e \<Rightarrow> Inl e
      | Inr g \<Rightarrow> ApplyEach nt inputGrid k boundaryPolicy rs g)"

text \<open>
  A partition of a region into sub-regions, to state the splitting property with: no
  coordinate lies in two sub-regions (or in two entries of the list) and the sub-regions
  together cover exactly the region.
\<close>

definition isPartition :: "ImageRegion \<Rightarrow> ImageRegion list \<Rightarrow> bool" where
  "isPartition region subRegions =
     (distinct (concat (map regionCoords subRegions)) \<and>
      set (concat (map regionCoords subRegions)) = set (regionCoords region))"


section \<open>The filter object\<close>

text \<open>
  Source: \<^verbatim>\<open>itkNeighborhoodOperatorImageFilter.h\<close>. The filter holds the operator by
  value (\<^verbatim>\<open>m_Operator\<close>), a raw pointer to a boundary condition
  (\<^verbatim>\<open>m_BoundsCondition\<close>) and a default boundary condition as a member
  (\<^verbatim>\<open>m_DefaultBoundaryCondition\<close>, a \<^verbatim>\<open>ZeroFluxNeumannBoundaryCondition\<close> without
  state). A pointer is null, the address of that member, or the address of an object of
  the caller.
\<close>

datatype ImageBoundaryConditionPointerType =
    nullptr
  | address_of_m_DefaultBoundaryCondition
  | address_of_caller_object nat

record 'w NeighborhoodOperatorImageFilter =
  m_Operator :: "'w Neighborhood"
  m_BoundsCondition :: ImageBoundaryConditionPointerType
  m_DynamicMultiThreading :: bool
  m_MTime :: nat

text \<open>
  Modelled from the spec: \<^verbatim>\<open>Modified()\<close> is inherited and missing. It "marks the stage
  as needing recomputation": the modification time advances, and the pipeline recomputes a
  stage whose modification time has advanced.
\<close>

definition Modified :: "'w NeighborhoodOperatorImageFilter \<Rightarrow> 'w NeighborhoodOperatorImageFilter" where
  "Modified this = this\<lparr>m_MTime := Suc (m_MTime this)\<rparr>"

text \<open>
  Lines 104-116. \<^verbatim>\<open>m_Operator = p\<close> copies the object the reference denotes: the
  value the caller's kernel has at the time of the call ("the operator is stored as an
  internal COPY").
\<close>

definition SetOperator ::
  "'w Neighborhood \<Rightarrow> 'w NeighborhoodOperatorImageFilter \<Rightarrow> 'w NeighborhoodOperatorImageFilter" where
  "SetOperator p this = Modified (this\<lparr>m_Operator := p\<rparr>)"

definition GetOperator :: "'w NeighborhoodOperatorImageFilter \<Rightarrow> 'w Neighborhood" where
  "GetOperator this = m_Operator this"

text \<open>Lines 123-134.\<close>

definition OverrideBoundaryCondition ::
  "ImageBoundaryConditionPointerType \<Rightarrow> 'w NeighborhoodOperatorImageFilter \<Rightarrow>
   'w NeighborhoodOperatorImageFilter" where
  "OverrideBoundaryCondition i this = this\<lparr>m_BoundsCondition := i\<rparr>"

definition GetBoundaryCondition ::
  "'w NeighborhoodOperatorImageFilter \<Rightarrow> ImageBoundaryConditionPointerType" where
  "GetBoundaryCondition this = m_BoundsCondition this"

text \<open>
  Lines 157-161, the constructor's body. It runs on the object as the member and base
  class initialisers left it, which is its argument here.
\<close>

definition constructor :: "'w NeighborhoodOperatorImageFilter \<Rightarrow> 'w NeighborhoodOperatorImageFilter" where
  "constructor this =
     this\<lparr>m_BoundsCondition := address_of_m_DefaultBoundaryCondition,
          m_DynamicMultiThreading := True\<rparr>"

text \<open>
  The objects of the caller that the filter is handed by reference or by pointer: kernels
  and boundary conditions, by address.
\<close>

record ('w, 'p) CallerMemory =
  kernelAt :: "nat \<Rightarrow> 'w Neighborhood"
  boundaryConditionAt :: "nat \<Rightarrow> 'p BoundaryPolicy"

definition dereference ::
  "('w, 'p) CallerMemory \<Rightarrow> ImageBoundaryConditionPointerType \<Rightarrow> 'p BoundaryPolicy option" where
  "dereference mem ptr =
     (case ptr of
        nullptr \<Rightarrow> None
      | address_of_m_DefaultBoundaryCondition \<Rightarrow> Some ZeroFluxNeumannBoundaryCondition
      | address_of_caller_object a \<Rightarrow> Some (boundaryConditionAt mem a))"

text \<open>
  Modelled from the spec: the body of \<^verbatim>\<open>DynamicThreadedGenerateData\<close> is missing
  (declared at line 176). "The engine is invoked once per output sub-region" (6): it runs
  with the stored operator and the boundary condition the pointer denotes at that time.
\<close>

definition DynamicThreadedGenerateData ::
  "('p, 'w, 'a::semiring_1, 'q) PixelTypes \<Rightarrow> ('w, 'p) CallerMemory \<Rightarrow>
   'w NeighborhoodOperatorImageFilter \<Rightarrow> 'p Image \<Rightarrow> ImageRegion \<Rightarrow> 'q Image \<Rightarrow>
   engine_error + 'q Image" where
  "DynamicThreadedGenerateData nt mem this input outputRegionForThread output =
     Apply nt input (m_Operator this) (dereference mem (m_BoundsCondition this))
       outputRegionForThread output"

text \<open>
  Modelled from the spec: the body of \<^verbatim>\<open>GenerateInputRequestedRegion\<close> is missing
  (declared at line 144). It "must call the Region Geometry Calculator (4.1) and propagate
  the resulting padded-and-clipped region as this stage's input demand" (6), for the
  stored operator's radius.
\<close>

definition GenerateInputRequestedRegion ::
  "'w NeighborhoodOperatorImageFilter \<Rightarrow> ImageRegion \<Rightarrow> ImageRegion \<Rightarrow> engine_error + ImageRegion" where
  "GenerateInputRequestedRegion this outputRequestedRegion largestPossibleRegion =
     RequiredInputRegion outputRequestedRegion (radius (m_Operator this)) largestPossibleRegion"

text \<open>
  What a program does with a filter, one call or one write at a time: the calls of the
  header, and writes of the caller to its own kernel and boundary-condition objects.
\<close>

datatype ('w, 'p) action =
    CallSetOperator nat
  | CallOverrideBoundaryCondition ImageBoundaryConditionPointerType
  | CallerWritesKernel nat "'w Neighborhood"
  | CallerWritesBoundaryCondition nat "'p BoundaryPolicy"

fun step ::
  "('w, 'p) action \<Rightarrow> ('w, 'p) CallerMemory \<times> 'w NeighborhoodOperatorImageFilter \<Rightarrow>
   ('w, 'p) CallerMemory \<times> 'w NeighborhoodOperatorImageFilter" where
  "step (CallSetOperator a) (mem, this) = (mem, SetOperator (kernelAt mem a) this)"
| "step (CallOverrideBoundaryCondition i) (mem, this) = (mem, OverrideBoundaryCondition i this)"
| "step (CallerWritesKernel a k) (mem, this) = (mem\<lparr>kernelAt := (kernelAt mem)(a := k)\<rparr>, this)"
| "step (CallerWritesBoundaryCondition a b) (mem, this) =
     (mem\<lparr>boundaryConditionAt := (boundaryConditionAt mem)(a := b)\<rparr>, this)"

definition run ::
  "('w, 'p) action list \<Rightarrow> ('w, 'p) CallerMemory \<times> 'w NeighborhoodOperatorImageFilter \<Rightarrow>
   ('w, 'p) CallerMemory \<times> 'w NeighborhoodOperatorImageFilter" where
  "run actions state = foldl (\<lambda>s a. step a s) state actions"

fun isOverride :: "('w, 'p) action \<Rightarrow> bool" where
  "isOverride (CallOverrideBoundaryCondition i) = True"
| "isOverride _ = False"

fun isKernelWrite :: "('w, 'p) action \<Rightarrow> bool" where
  "isKernelWrite (CallerWritesKernel a k) = True"
| "isKernelWrite _ = False"

text \<open>
  The output grid after the pixels of a set of coordinates have been written: the inner
  product at each of them, the old value everywhere else.
\<close>

definition written ::
  "('p, 'w, 'a::semiring_1, 'q) PixelTypes \<Rightarrow> 'p BoundaryPolicy \<Rightarrow> 'p Image \<Rightarrow> 'w Neighborhood \<Rightarrow>
   int list set \<Rightarrow> 'q Image \<Rightarrow> 'q Image" where
  "written nt policy inputGrid k cs outputGrid =
     outputGrid\<lparr>pixel := (\<lambda>c. if c \<in> cs then innerProduct nt policy inputGrid k c
                                else pixel outputGrid c)\<rparr>"

section \<open>Example data\<close>

text \<open>
  The grid \<open>[1,2,3,4,5]\<close> of the specification's padding example (any coordinate
  outside it holds a value no result below contains), an output grid of the same shape,
  a constant grid, the box kernel \<open>[1,1,1]\<close>, an asymmetric kernel, exact integer
  arithmetic for all four pixel types, a filter object before its constructor has run,
  and a caller that owns kernels and boundary conditions.
\<close>

definition exactInt :: "(int, int, int, int) PixelTypes" where
  "exactInt = \<lparr>inputToComputing = (\<lambda>x. x), weightToComputing = (\<lambda>x. x), computingToOutput = (\<lambda>x. x)\<rparr>"

definition grid12345 :: "int Image" where
  "grid12345 = \<lparr>extent = [(0, 5)],
                 pixel = (\<lambda>c. if c = [0] then 1 else if c = [1] then 2 else if c = [2] then 3
                              else if c = [3] then 4 else if c = [4] then 5 else - 1000)\<rparr>"

definition blank5 :: "int Image" where
  "blank5 = \<lparr>extent = [(0, 5)], pixel = (\<lambda>c. 0)\<rparr>"

definition flat5 :: "int Image" where
  "flat5 = \<lparr>extent = [(0, 5)], pixel = (\<lambda>c. 7)\<rparr>"

definition box3 :: "int Neighborhood" where
  "box3 = \<lparr>radius = [1], weights = [1, 1, 1]\<rparr>"

definition ramp3 :: "int Neighborhood" where
  "ramp3 = \<lparr>radius = [1], weights = [1, 2, 3]\<rparr>"

definition uninitialised :: "int NeighborhoodOperatorImageFilter" where
  "uninitialised = \<lparr>m_Operator = \<lparr>radius = [], weights = []\<rparr>, m_BoundsCondition = nullptr,
                     m_DynamicMultiThreading = False, m_MTime = 0\<rparr>"

definition callerObjects :: "(int, int) CallerMemory" where
  "callerObjects = \<lparr>kernelAt = (\<lambda>a. if a = 0 then box3 else ramp3),
                     boundaryConditionAt = (\<lambda>a. ZeroFluxNeumannBoundaryCondition)\<rparr>"





section \<open>Properties of the video IO factory\<close>

lemma collectPossibleVideoIO_all:
  "\<forall>x\<in>set objs. dynamic_cast_VideoIOBase x \<noteq> None \<Longrightarrow>
   collectPossibleVideoIO objs acc = Inr (acc @ handlersOf objs)"
proof (induction objs arbitrary: acc)
  case Nil
  then show ?case by (simp add: handlersOf_def map_filter_simps)
next
  case (Cons x xs)
  then show ?case by (cases x) (auto simp: handlersOf_def map_filter_simps)
qed

lemma collectPossibleVideoIO_other:
  "\<exists>x\<in>set objs. dynamic_cast_VideoIOBase x = None \<Longrightarrow>
   collectPossibleVideoIO objs acc =
     Inl (ExceptionObject ''VideoIO factory did not return a VideoIOBase'')"
proof (induction objs arbitrary: acc)
  case Nil
  then show ?case by simp
next
  case (Cons x xs)
  then show ?case by (cases x) auto
qed

lemma probeLoop_scan:
  assumes "mode = ReadCameraMode \<longrightarrow> stoi arg = Inr n"
  shows "probeLoop mode arg js log =
           (Inr (find (capability mode arg n) js),
            log @ map (probeOf mode arg n) (probedPrefix (capability mode arg n) js))"
  using assms
proof (induction js arbitrary: log)
  case Nil
  then show ?case by simp
next
  case (Cons j js)
  show ?case
  proof (cases mode)
    case ReadFileMode
    with Cons show ?thesis by (simp add: capability_def probeOf_def)
  next
    case ReadCameraMode
    with Cons show ?thesis by (simp add: capability_def probeOf_def)
  next
    case WriteMode
    with Cons show ?thesis by (simp add: capability_def probeOf_def)
  qed
qed

lemma stoi_front: "stoi ''front'' = Inl std_invalid_argument"
  by (simp add: stoi_def isspace_def isdigit_def)

lemma stoi_0: "stoi ''0'' = Inr 0"
  by (simp add: stoi_def isspace_def isdigit_def decimal_value_def digit_value_def
      INT_MIN_def INT_MAX_def)

lemma stoi_signed_prefix: "stoi '' -12abc'' = Inr (- 12)"
  by (simp add: stoi_def isspace_def isdigit_def decimal_value_def digit_value_def
      INT_MIN_def INT_MAX_def)

lemma stoi_too_large: "stoi ''2147483648'' = Inl std_out_of_range"
  by (simp add: stoi_def isspace_def isdigit_def decimal_value_def digit_value_def
      INT_MIN_def INT_MAX_def)

text \<open>
  Claim C7, as the code has it. When every created instance is a \<^verbatim>\<open>VideoIOBase\<close>
  and, in camera mode with at least one candidate, the argument parses as an \<^verbatim>\<open>int\<close>
  \<open>n\<close>, \<open>CreateVideoIO\<close> returns the first candidate, in registration order, whose
  capability query for the mode (\<^verbatim>\<open>CanReadFile(arg)\<close>, \<^verbatim>\<open>CanReadCamera(n)\<close>,
  \<^verbatim>\<open>CanWriteFile(arg)\<close>) answers yes, and \<^verbatim>\<open>nullptr\<close> when none does. The queries
  it makes are exactly those of the candidates up to and including that first match, in
  registration order.
\<close>

theorem CreateVideoIO_first_match:
  assumes handlers: "\<forall>x\<in>set allInstances. dynamic_cast_VideoIOBase x \<noteq> None"
      and index: "mode = ReadCameraMode \<and> allInstances \<noteq> [] \<longrightarrow> stoi arg = Inr n"
  shows "CreateVideoIO allInstances mode arg =
           (Inr (find (capability mode arg n) (handlersOf allInstances)),
            map (probeOf mode arg n)
              (probedPrefix (capability mode arg n) (handlersOf allInstances)))"
proof (cases "allInstances = []")
  case True
  then show ?thesis by (simp add: CreateVideoIO_def handlersOf_def map_filter_simps)
next
  case False
  with index have "mode = ReadCameraMode \<longrightarrow> stoi arg = Inr n" by simp
  from probeLoop_scan [OF this] collectPossibleVideoIO_all [OF handlers, of "[]"]
  show ?thesis by (simp add: CreateVideoIO_def)
qed

theorem CreateVideoIO_first_match_witness:
  "CreateVideoIO [VideoIOObject acceptsNone, VideoIOObject aviOnly, VideoIOObject acceptsAll]
       ReadCameraMode ''0''
     = (Inr (Some aviOnly), [AskedCanReadCamera acceptsNone 0, AskedCanReadCamera aviOnly 0])"
  using CreateVideoIO_first_match
    [of "[VideoIOObject acceptsNone, VideoIOObject aviOnly, VideoIOObject acceptsAll]"
        ReadCameraMode "''0''" 0]
  by (simp add: stoi_0 handlersOf_def map_filter_simps capability_def probeOf_def
      acceptsNone_def aviOnly_def acceptsAll_def)

text \<open>
  Claim C7 as stated (for every candidate list, mode and argument) fails: in camera mode
  with an argument that is not a number, \<^verbatim>\<open>std::stoi\<close> raises inside the loop. The
  single candidate below would accept camera 0 and any other index; the routine neither
  returns it nor returns \<^verbatim>\<open>nullptr\<close>.
\<close>

theorem CreateVideoIO_camera_counterexample:
  "fst (CreateVideoIO [VideoIOObject acceptsAll] ReadCameraMode ''front'') = Inl std_invalid_argument
   \<and> fst (CreateVideoIO [VideoIOObject acceptsAll] ReadCameraMode ''front'') \<noteq> Inr (Some acceptsAll)
   \<and> fst (CreateVideoIO [VideoIOObject acceptsAll] ReadCameraMode ''front'') \<noteq> Inr None"
  by (simp add: CreateVideoIO_def stoi_front)

text \<open>
  Claim C10. If some instance created for the key \<^verbatim>\<open>"itkVideoIOBase"\<close> is not a
  \<^verbatim>\<open>VideoIOBase\<close>, \<open>CreateVideoIO\<close> raises the exception with the message
  "VideoIO factory did not return a VideoIOBase", for every mode and argument and wherever
  the instance stands in the list; no capability query has been made (the log is empty),
  the instance is not skipped and no candidate or \<^verbatim>\<open>nullptr\<close> is returned.
\<close>

theorem CreateVideoIO_ill_typed_instance:
  assumes "\<exists>x\<in>set allInstances. dynamic_cast_VideoIOBase x = None"
  shows "CreateVideoIO allInstances mode arg =
           (Inl (ExceptionObject ''VideoIO factory did not return a VideoIOBase''), [])"
  using collectPossibleVideoIO_other [OF assms, of "[]"] by (simp add: CreateVideoIO_def)

theorem CreateVideoIO_ill_typed_instance_witness:
  "CreateVideoIO [VideoIOObject acceptsAll, OtherObject] ReadFileMode ''clip.avi'' =
           (Inl (ExceptionObject ''VideoIO factory did not return a VideoIOBase''), [])"
  using CreateVideoIO_ill_typed_instance
    [of "[VideoIOObject acceptsAll, OtherObject]" ReadFileMode "''clip.avi''"]
  by simp

section \<open>Coordinates of a region\<close>

lemma set_cartesian:
  "set (cartesian xss) = {c. list_all2 (\<lambda>x xs. x \<in> set xs) c xss}"
proof (induction xss)
  case Nil
  then show ?case by auto
next
  case (Cons xs xss)
  show ?case
  proof (rule set_eqI)
    fix c
    show "c \<in> set (cartesian (xs # xss)) \<longleftrightarrow> c \<in> {c. list_all2 (\<lambda>x xs. x \<in> set xs) c (xs # xss)}"
      using Cons.IH by (cases c) (auto simp: list_all2_Cons2)
  qed
qed

lemma distinct_concat_cons:
  "distinct ys \<Longrightarrow> distinct xs \<Longrightarrow>
   distinct (concat (map (\<lambda>rest. map (\<lambda>x. x # rest) xs) ys))"
  by (induction ys) (auto simp: distinct_map inj_on_def)

lemma distinct_cartesian:
  "\<forall>xs\<in>set xss. distinct xs \<Longrightarrow> distinct (cartesian xss)"
  by (induction xss) (simp_all add: distinct_concat_cons)

lemma length_concat_cons:
  "length (concat (map (\<lambda>rest. map (\<lambda>x. x # rest) xs) ys)) = length xs * length ys"
  by (induction ys) simp_all

lemma length_cartesian: "length (cartesian xss) = prod_list (map length xss)"
  by (induction xss) (simp_all add: length_concat_cons)



lemma set_axisRange: "set (axisRange ax) = {x. inAxis ax x}"
proof (rule set_eqI)
  fix x
  have "x \<in> set (axisRange ax) \<longleftrightarrow> (\<exists>n<snd ax. x = fst ax + int n)"
    by (auto simp: axisRange_def)
  also have "\<dots> \<longleftrightarrow> inAxis ax x"
  proof
    assume "\<exists>n<snd ax. x = fst ax + int n"
    then show "inAxis ax x" by (auto simp: inAxis_def)
  next
    assume a: "inAxis ax x"
    then have "nat (x - fst ax) < snd ax" "x = fst ax + int (nat (x - fst ax))"
      by (auto simp: inAxis_def)
    then show "\<exists>n<snd ax. x = fst ax + int n" by blast
  qed
  finally show "x \<in> set (axisRange ax) \<longleftrightarrow> x \<in> {x. inAxis ax x}" by simp
qed

lemma distinct_axisRange: "distinct (axisRange ax)"
  by (simp add: axisRange_def distinct_map inj_on_def)

lemma set_regionCoords: "set (regionCoords region) = {c. inRegion region c}"
proof -
  have "list_all2 (\<lambda>x xs. x \<in> set xs) c (map axisRange region) \<longleftrightarrow> list_all2 inAxis region c" for c
    by (auto simp: list_all2_conv_all_nth set_axisRange)
  then show ?thesis
    by (simp add: regionCoords_def set_cartesian inRegion_def)
qed

lemma distinct_regionCoords: "distinct (regionCoords region)"
  by (simp add: regionCoords_def distinct_cartesian distinct_axisRange)

lemma length_regionCoords: "length (regionCoords region) = prod_list (map snd region)"
  by (simp add: regionCoords_def length_cartesian axisRange_def comp_def)

lemma isEmptyRegion_iff: "isEmptyRegion region \<longleftrightarrow> regionCoords region = []"
proof -
  have "regionCoords region = [] \<longleftrightarrow> prod_list (map snd region) = 0"
    using length_regionCoords [of region] by auto
  also have "\<dots> \<longleftrightarrow> 0 \<in> set (map snd region)"
    by (rule prod_list_zero_iff)
  finally show ?thesis by (simp add: isEmptyRegion_def)
qed

lemma isEmptyRegion_no_coordinate: "isEmptyRegion region \<longleftrightarrow> (\<forall>c. \<not> inRegion region c)"
proof -
  have "regionCoords region = [] \<longleftrightarrow> set (regionCoords region) = {}" by simp
  then show ?thesis by (simp add: isEmptyRegion_iff set_regionCoords)
qed

section \<open>Properties of the region geometry\<close>

lemma inAxis_padAxis:
  "inAxis (padAxis ax r) x \<longleftrightarrow> fst ax - int r \<le> x \<and> x < fst ax + int (snd ax) + int r"
  by (auto simp: inAxis_def padAxis_def)

lemma inAxis_cropAxis: "inAxis (cropAxis ax bx) x \<longleftrightarrow> inAxis ax x \<and> inAxis bx x"
  by (auto simp: inAxis_def cropAxis_def Let_def)

lemma PadByRadius_nth:
  assumes "length rad = length region"
  shows "PadByRadius region rad =
           map (\<lambda>i. (fst (region ! i) - int (rad ! i), snd (region ! i) + 2 * rad ! i))
             [0..<length region]"
  using assms by (intro nth_equalityI) (simp_all add: PadByRadius_def padAxis_def)

lemma inRegion_Crop:
  assumes "length bound = length region"
  shows "inRegion (Crop region bound) c \<longleftrightarrow> inRegion region c \<and> inRegion bound c"
  using assms
  by (auto simp: inRegion_def Crop_def list_all2_conv_all_nth inAxis_cropAxis)

lemma length_Crop: "length bound = length region \<Longrightarrow> length (Crop region bound) = length region"
  by (simp add: Crop_def)

lemma length_PadByRadius: "length rad = length region \<Longrightarrow> length (PadByRadius region rad) = length region"
  by (simp add: PadByRadius_def)

text \<open>
  Claim C2. For every requested output region, kernel radius vector and full input extent
  (of one dimension), the input demand is computed from the output region padded, on each
  axis \<open>i\<close>, to origin \<open>origin[i] - radius[i]\<close> and size \<open>size[i] + 2 * radius[i]\<close>:
  when the padded region and the full input extent share no coordinate,
  \<open>GenerateInputRequestedRegion\<close> reports the error \<open>EmptyInputRegion\<close> and produces no
  region; otherwise it produces a region whose coordinates are exactly those that lie in
  both, and there is at least one.
\<close>

theorem GenerateInputRequestedRegion_demand:
  assumes rad: "length (radius (m_Operator this)) = length outputRequestedRegion"
      and ext: "length fullInputExtent = length outputRequestedRegion"
  shows "(PadByRadius outputRequestedRegion (radius (m_Operator this)) =
           map (\<lambda>i. (fst (outputRequestedRegion ! i) - int (radius (m_Operator this) ! i),
                      snd (outputRequestedRegion ! i) + 2 * radius (m_Operator this) ! i))
             [0..<length outputRequestedRegion])
         \<and> (case GenerateInputRequestedRegion this outputRequestedRegion fullInputExtent of
              Inl e \<Rightarrow>
                e = EmptyInputRegion \<and>
                (\<forall>c. \<not> (inRegion (PadByRadius outputRequestedRegion (radius (m_Operator this))) c
                         \<and> inRegion fullInputExtent c))
            | Inr demand \<Rightarrow>
                (\<forall>c. inRegion demand c \<longleftrightarrow>
                       inRegion (PadByRadius outputRequestedRegion (radius (m_Operator this))) c
                       \<and> inRegion fullInputExtent c)
                \<and> (\<exists>c. inRegion demand c))"
    (is "?pad \<and> ?demand")
proof -
  have pad: ?pad by (rule PadByRadius_nth [OF rad])
  let ?padded = "PadByRadius outputRequestedRegion (radius (m_Operator this))"
  have len: "length fullInputExtent = length ?padded"
    using rad ext by (simp add: length_PadByRadius)
  have crop: "inRegion (Crop ?padded fullInputExtent) c \<longleftrightarrow> inRegion ?padded c \<and> inRegion fullInputExtent c" for c
    by (rule inRegion_Crop [OF len])
  have result: "GenerateInputRequestedRegion this outputRequestedRegion fullInputExtent =
      (if isEmptyRegion (Crop ?padded fullInputExtent) then Inl EmptyInputRegion
       else Inr (Crop ?padded fullInputExtent))"
    by (simp add: GenerateInputRequestedRegion_def RequiredInputRegion_def)
  have ?demand
  proof (cases "isEmptyRegion (Crop ?padded fullInputExtent)")
    case True
    then have "\<forall>c. \<not> inRegion (Crop ?padded fullInputExtent) c"
      by (simp add: isEmptyRegion_no_coordinate)
    then have "\<forall>c. \<not> (inRegion ?padded c \<and> inRegion fullInputExtent c)"
      by (simp add: crop)
    with True show ?thesis by (simp add: result)
  next
    case False
    then have "\<exists>c. inRegion (Crop ?padded fullInputExtent) c"
      by (simp add: isEmptyRegion_no_coordinate)
    with False crop show ?thesis unfolding result by auto
  qed
  with pad show ?thesis by (rule conjI)
qed

theorem GenerateInputRequestedRegion_demand_witness:
  "length (radius (m_Operator (SetOperator box3 (constructor uninitialised)))) = length [(0, 5 :: nat) :: int \<times> nat]
   \<and> PadByRadius [(0, 5)] (radius (m_Operator (SetOperator box3 (constructor uninitialised)))) = [(- 1, 7)]
   \<and> GenerateInputRequestedRegion (SetOperator box3 (constructor uninitialised)) [(0, 5)] [(0, 5)] = Inr [(0, 5)]
   \<and> (\<forall>c. inRegion [(0, 5)] c \<longleftrightarrow>
         inRegion (PadByRadius [(0, 5)] (radius (m_Operator (SetOperator box3 (constructor uninitialised))))) c
         \<and> inRegion [(0, 5)] c)"
proof -
  let ?f = "SetOperator box3 (constructor uninitialised)"
  have r: "radius (m_Operator ?f) = [1]"
    by (simp add: SetOperator_def Modified_def constructor_def box3_def)
  have l1: "length (radius (m_Operator ?f)) = length [(0, 5 :: nat) :: int \<times> nat]" by (simp add: r)
  have l2: "length [(0, 5 :: nat) :: int \<times> nat] = length [(0, 5 :: nat) :: int \<times> nat]" by simp
  have g: "GenerateInputRequestedRegion ?f [(0, 5)] [(0, 5)] = Inr [(0, 5)]"
    by (simp add: GenerateInputRequestedRegion_def RequiredInputRegion_def r PadByRadius_def
        padAxis_def Crop_def cropAxis_def isEmptyRegion_def)
  have p: "PadByRadius [(0, 5)] (radius (m_Operator ?f)) = [(- 1, 7)]"
    by (simp add: r PadByRadius_def padAxis_def)
  from GenerateInputRequestedRegion_demand [OF l1 l2] l1 p g show ?thesis by simp
qed

text \<open>A requested region whose padding misses the input extent is reported.\<close>

lemma GenerateInputRequestedRegion_outside:
  "GenerateInputRequestedRegion (SetOperator box3 (constructor uninitialised)) [(10, 2)] [(0, 5)]
     = Inl EmptyInputRegion"
  by (simp add: GenerateInputRequestedRegion_def RequiredInputRegion_def PadByRadius_def
        padAxis_def Crop_def cropAxis_def isEmptyRegion_def SetOperator_def Modified_def
        constructor_def box3_def)

section \<open>Properties of the engine\<close>

lemma foldl_writePixel_pixel:
  "pixel (foldl (\<lambda>g c. writePixel g c (f c)) out cs) = (\<lambda>c. if c \<in> set cs then f c else pixel out c)"
  by (induction cs arbitrary: out rule: rev_induct) (auto simp: writePixel_def fun_eq_iff)

lemma foldl_writePixel_extent:
  "extent (foldl (\<lambda>g c. writePixel g c (f c)) out cs) = extent out"
  by (induction cs arbitrary: out) (auto simp: writePixel_def)

lemma foldl_writePixel_more:
  "Image.more (foldl (\<lambda>g c. writePixel g c (f c)) out cs) = Image.more out"
  by (induction cs arbitrary: out) (auto simp: writePixel_def)

lemma foldl_writePixel_written:
  "foldl (\<lambda>g c. writePixel g c (innerProduct nt policy inputGrid k c)) out cs =
     written nt policy inputGrid k (set cs) out"
  unfolding written_def
  by (rule Image.equality)
     (simp_all add: foldl_writePixel_pixel foldl_writePixel_extent foldl_writePixel_more)

lemma written_empty: "written nt policy inputGrid k {} out = out"
  by (simp add: written_def)

lemma written_written:
  "written nt policy inputGrid k B (written nt policy inputGrid k A out) =
     written nt policy inputGrid k (A \<union> B) out"
  by (auto simp: written_def fun_eq_iff)

lemma extent_written: "extent (written nt policy inputGrid k A out) = extent out"
  by (simp add: written_def)

text \<open>The engine with a policy and a well-formed kernel, and without.\<close>

lemma Apply_ready:
  assumes "length (weights k) = footprint (radius k)"
  shows "Apply nt inputGrid k (Some policy) r out =
           (if set (regionCoords r) \<subseteq> {c. inRegion (extent out) c}
            then Inr (written nt policy inputGrid k (set (regionCoords r)) out)
            else Inl RegionOutsideGrid)"
proof (cases "isEmptyRegion r")
  case True
  then have "regionCoords r = []" by (simp add: isEmptyRegion_iff)
  with True show ?thesis by (simp add: Apply_def written_empty)
next
  case False
  then show ?thesis
    using assms by (auto simp: Apply_def foldl_writePixel_written list_all_iff)
qed

lemma Apply_not_ready:
  assumes "boundaryPolicy = None \<or> length (weights k) \<noteq> footprint (radius k)"
  shows "Apply nt inputGrid k boundaryPolicy r out =
           (if regionCoords r = [] then Inr out
            else Inl (if boundaryPolicy = None then NoBoundaryPolicy else KernelLengthMismatch))"
  using assms by (auto simp: Apply_def isEmptyRegion_iff split: option.splits)

lemma ApplyEach_ready:
  assumes "length (weights k) = footprint (radius k)"
  shows "ApplyEach nt inputGrid k (Some policy) rs out =
           (if set (concat (map regionCoords rs)) \<subseteq> {c. inRegion (extent out) c}
            then Inr (written nt policy inputGrid k (set (concat (map regionCoords rs))) out)
            else Inl RegionOutsideGrid)"
proof (induction rs arbitrary: out)
  case Nil
  then show ?case by (simp add: written_empty)
next
  case (Cons r rs)
  show ?case
    by (simp add: Apply_ready [OF assms] Cons.IH extent_written written_written)
qed

lemma ApplyEach_not_ready:
  assumes "boundaryPolicy = None \<or> length (weights k) \<noteq> footprint (radius k)"
  shows "ApplyEach nt inputGrid k boundaryPolicy rs out =
           (if concat (map regionCoords rs) = [] then Inr out
            else Inl (if boundaryPolicy = None then NoBoundaryPolicy else KernelLengthMismatch))"
proof (induction rs)
  case Nil
  then show ?case by simp
next
  case (Cons r rs)
  show ?case
  proof (cases "regionCoords r = []")
    case True
    then show ?thesis by (simp add: Apply_not_ready [OF assms] Cons.IH)
  next
    case False
    then show ?thesis by (simp add: Apply_not_ready [OF assms])
  qed
qed

lemma ApplyEach_covering:
  assumes "set (concat (map regionCoords rs)) = set (regionCoords region)"
  shows "ApplyEach nt inputGrid k boundaryPolicy rs out =
         Apply nt inputGrid k boundaryPolicy region out"
proof (cases "boundaryPolicy = None \<or> length (weights k) \<noteq> footprint (radius k)")
  case True
  have "concat (map regionCoords rs) = [] \<longleftrightarrow> regionCoords region = []"
    using assms by (metis set_empty)
  then show ?thesis
    by (simp add: ApplyEach_not_ready [OF True] Apply_not_ready [OF True])
next
  case False
  then obtain policy where p: "boundaryPolicy = Some policy"
    and wf: "length (weights k) = footprint (radius k)" by auto
  show ?thesis
    unfolding p by (simp only: ApplyEach_ready [OF wf] Apply_ready [OF wf] assms)
qed

lemma regionCoords_0_5: "regionCoords [(0, 5)] = [[0], [1], [2], [3], [4]]"
  by code_simp

lemma box3_at_0: "innerProduct exactInt ZeroFluxNeumannBoundaryCondition grid12345 box3 [0] = 4"
  by code_simp

lemma box3_at_1: "innerProduct exactInt ZeroFluxNeumannBoundaryCondition grid12345 box3 [1] = 6"
  by code_simp

lemma box3_at_2: "innerProduct exactInt ZeroFluxNeumannBoundaryCondition grid12345 box3 [2] = 9"
  by code_simp

lemma box3_at_3: "innerProduct exactInt ZeroFluxNeumannBoundaryCondition grid12345 box3 [3] = 12"
  by code_simp

lemma box3_at_4: "innerProduct exactInt ZeroFluxNeumannBoundaryCondition grid12345 box3 [4] = 14"
  by code_simp

lemma box3_wf: "length (weights box3) = footprint (radius box3)"
  by (simp add: box3_def footprint_def)

text \<open>
  Claim C8. For every output sub-region with a zero size on some axis, for every input
  grid, kernel and boundary policy (even a missing one), invoking the engine returns
  without an error and returns the output grid as it was: no coordinate is modified, and
  the region has no coordinate that could be written.
\<close>

theorem empty_region_no_op:
  assumes "i < length region" and "snd (region ! i) = 0"
  shows "Apply nt inputGrid k boundaryPolicy region outputGrid = Inr outputGrid
       \<and> DynamicThreadedGenerateData nt mem this inputGrid region outputGrid = Inr outputGrid
       \<and> regionCoords region = []"
proof -
  from assms have "snd (region ! i) \<in> set (map snd region)"
    by (metis length_map nth_map nth_mem)
  with assms(2) have e: "isEmptyRegion region" by (simp add: isEmptyRegion_def)
  then have "regionCoords region = []" by (simp add: isEmptyRegion_iff)
  with e show ?thesis by (simp add: Apply_def DynamicThreadedGenerateData_def)
qed

theorem empty_region_no_op_witness:
  "(1::nat) < length [(0, 5), (3, 0::nat)] \<and> snd ([(0, 5), (3, 0::nat)] ! 1) = 0
   \<and> Apply exactInt grid12345 box3 None [(0, 5), (3, 0)] blank5 = Inr blank5
   \<and> DynamicThreadedGenerateData exactInt callerObjects uninitialised grid12345 [(0, 5), (3, 0)] blank5 = Inr blank5"
  using empty_region_no_op [of 1 "[(0, 5), (3, 0)]" exactInt grid12345 box3 None blank5 callerObjects uninitialised]
  by simp

text \<open>
  Claim C1. A filter as its constructor leaves it (so with the default zero-flux boundary
  condition), given the kernel of radius 1 with weights \<open>[1,1,1]\<close>, run over the full
  region of the 1-D grid \<open>[1,2,3,4,5]\<close>, succeeds and writes 4 at index 0 (the left
  neighbor is clamped to index 0), 9 at index 2 and 14 at index 4 (the right neighbor is
  clamped to index 4); indices 1 and 3 receive 6 and 12. This holds for every output grid
  allocated over that region.
\<close>

theorem padding_correctness:
  assumes "extent outputGrid = [(0, 5)]"
  shows "\<exists>g. DynamicThreadedGenerateData exactInt mem (SetOperator box3 (constructor raw))
                grid12345 [(0, 5)] outputGrid = Inr g
             \<and> pixel g [0] = 4 \<and> pixel g [1] = 6 \<and> pixel g [2] = 9 \<and> pixel g [3] = 12
             \<and> pixel g [4] = 14"
proof -
  let ?g = "written exactInt ZeroFluxNeumannBoundaryCondition grid12345 box3
              (set (regionCoords [(0, 5)])) outputGrid"
  have "DynamicThreadedGenerateData exactInt mem (SetOperator box3 (constructor raw))
          grid12345 [(0, 5)] outputGrid
        = Apply exactInt grid12345 box3 (Some ZeroFluxNeumannBoundaryCondition) [(0, 5)] outputGrid"
    by (simp add: DynamicThreadedGenerateData_def SetOperator_def Modified_def constructor_def
        dereference_def)
  also have "\<dots> = Inr ?g"
    by (simp add: Apply_ready [OF box3_wf] assms set_regionCoords)
  finally have run: "DynamicThreadedGenerateData exactInt mem (SetOperator box3 (constructor raw))
          grid12345 [(0, 5)] outputGrid = Inr ?g" .
  have "pixel ?g [0] = 4" "pixel ?g [1] = 6" "pixel ?g [2] = 9" "pixel ?g [3] = 12" "pixel ?g [4] = 14"
    by (simp_all add: written_def regionCoords_0_5 box3_at_0 box3_at_1 box3_at_2 box3_at_3 box3_at_4)
  with run show ?thesis by blast
qed

theorem padding_correctness_witness:
  "extent blank5 = [(0, 5)]
   \<and> (\<exists>g. DynamicThreadedGenerateData exactInt callerObjects (SetOperator box3 (constructor uninitialised))
                grid12345 [(0, 5)] blank5 = Inr g
             \<and> pixel g [0] = 4 \<and> pixel g [1] = 6 \<and> pixel g [2] = 9 \<and> pixel g [3] = 12
             \<and> pixel g [4] = 14)"
proof -
  have e: "extent blank5 = [(0, 5)]" by (simp add: blank5_def)
  from padding_correctness [OF e, of callerObjects uninitialised] e show ?thesis by blast
qed

text \<open>
  Claim C3. Let the sub-regions be a partition of a full output region (pairwise disjoint,
  together covering it) and let them be run in any order, one invocation each. Then the
  run ends exactly as a single invocation over the full region does, given the same
  input grid, kernel, boundary policy and initial output grid: with the same output grid
  (equal at every coordinate, those of the full region in particular), or with the same
  error when the single invocation fails.
\<close>

theorem region_splitting_invariance:
  assumes "isPartition region subRegions"
      and "mset order = mset subRegions"
  shows "ApplyEach nt inputGrid k boundaryPolicy order outputGrid =
         Apply nt inputGrid k boundaryPolicy region outputGrid"
proof -
  from assms(2) have "set order = set subRegions" by (rule mset_eq_setD)
  then have "set (concat (map regionCoords order)) = set (concat (map regionCoords subRegions))"
    by simp
  with assms(1) have "set (concat (map regionCoords order)) = set (regionCoords region)"
    by (simp add: isPartition_def)
  then show ?thesis by (rule ApplyEach_covering)
qed

theorem region_splitting_invariance_witness:
  "isPartition [(0, 5)] [[(0, 2)], [(2, 3)]]
   \<and> mset [[(2, 3)], [(0, 2)]] = mset [[(0, 2)], [(2, 3 :: nat)] :: ImageRegion]
   \<and> ApplyEach exactInt grid12345 box3 (Some ZeroFluxNeumannBoundaryCondition)
         [[(2, 3)], [(0, 2)]] blank5
       = Apply exactInt grid12345 box3 (Some ZeroFluxNeumannBoundaryCondition) [(0, 5)] blank5
   \<and> map (pixel (projr (ApplyEach exactInt grid12345 box3 (Some ZeroFluxNeumannBoundaryCondition)
         [[(2, 3)], [(0, 2)]] blank5))) [[0], [1], [2], [3], [4]] = [4, 6, 9, 12, 14]"
proof -
  have p: "isPartition [(0, 5)] [[(0, 2)], [(2, 3)]]" by code_simp
  have m: "mset [[(2, 3)], [(0, 2)]] = mset [[(0, 2)], [(2, 3 :: nat)] :: ImageRegion]" by simp
  have v: "map (pixel (projr (ApplyEach exactInt grid12345 box3 (Some ZeroFluxNeumannBoundaryCondition)
         [[(2, 3)], [(0, 2)]] blank5))) [[0], [1], [2], [3], [4]] = [4, 6, 9, 12, 14]"
    by code_simp
  from region_splitting_invariance [OF p m, of exactInt grid12345 box3
      "Some ZeroFluxNeumannBoundaryCondition" blank5] p m v
  show ?thesis by blast
qed

section \<open>Correlation and convolution\<close>




























text \<open>
  The difference is one of the two filters, not of every pair of outputs: on a constant
  grid the asymmetric kernel \<open>[1,2,3]\<close> and its mirror \<open>[3,2,1]\<close> both give 42 at every
  coordinate, while on the grid \<open>[1,2,3,4,5]\<close> they give different outputs everywhere.
\<close>

lemma asymmetric_kernel_constant_grid:
  "weights ramp3 \<noteq> rev (weights ramp3)
   \<and> map (pixel (projr (Apply exactInt flat5 ramp3 (Some ZeroFluxNeumannBoundaryCondition) [(0, 5)] blank5)))
       [[0], [1], [2], [3], [4]] = [42, 42, 42, 42, 42]
   \<and> map (pixel (projr (Apply exactInt flat5 (mirror ramp3) (Some ZeroFluxNeumannBoundaryCondition) [(0, 5)] blank5)))
       [[0], [1], [2], [3], [4]] = [42, 42, 42, 42, 42]"
  by code_simp

lemma asymmetric_kernel_different_output:
  "map (pixel (projr (Apply exactInt grid12345 ramp3 (Some ZeroFluxNeumannBoundaryCondition) [(0, 5)] blank5)))
       [[0], [1], [2], [3], [4]] = [9, 14, 20, 26, 29]
   \<and> map (pixel (projr (Apply exactInt grid12345 (mirror ramp3) (Some ZeroFluxNeumannBoundaryCondition) [(0, 5)] blank5)))
       [[0], [1], [2], [3], [4]] = [7, 10, 16, 22, 27]"
  by code_simp

section \<open>Properties of the filter object\<close>

lemma run_Nil: "run [] s = s"
  by (simp add: run_def)

lemma run_Cons: "run (a # acts) s = run acts (step a s)"
  by (simp add: run_def)

lemma run_kernel_writes:
  "list_all isKernelWrite acts \<Longrightarrow>
   snd (run acts s) = snd s \<and> boundaryConditionAt (fst (run acts s)) = boundaryConditionAt (fst s)"
proof (induction acts arbitrary: s)
  case Nil
  then show ?case by (simp add: run_Nil)
next
  case (Cons a acts)
  then show ?case by (cases a; cases s) (simp_all add: run_Cons)
qed

lemma run_no_override:
  "\<not> list_ex isOverride acts \<Longrightarrow> m_BoundsCondition (snd (run acts s)) = m_BoundsCondition (snd s)"
proof (induction acts arbitrary: s)
  case Nil
  then show ?case by (simp add: run_Nil)
next
  case (Cons a acts)
  then show ?case
    by (cases a; cases s) (simp_all add: run_Cons SetOperator_def Modified_def)
qed

lemma dereference_same:
  "boundaryConditionAt m1 = boundaryConditionAt m2 \<Longrightarrow> dereference m1 p = dereference m2 p"
  by (cases p) (simp_all add: dereference_def)

text \<open>
  Claim C5. For every kernel object \<open>k\<close> of the caller (at address \<open>a\<close>), after
  \<open>SetOperator(k)\<close> the filter holds a copy: \<open>GetOperator()\<close> returns the value \<open>k\<close>
  had at the call; after any further writes of the caller to its kernel objects (that
  one included) \<open>GetOperator()\<close> still returns that value and every later run of the
  engine gives the result it would have given before the writes; and the call advances
  the filter's modification time, which marks the stage as needing recomputation.
\<close>

theorem SetOperator_private_copy:
  assumes "list_all isKernelWrite writes"
  shows "GetOperator (snd (step (CallSetOperator a) (mem, this))) = kernelAt mem a
       \<and> GetOperator (snd (run writes (step (CallSetOperator a) (mem, this)))) = kernelAt mem a
       \<and> DynamicThreadedGenerateData nt (fst (run writes (step (CallSetOperator a) (mem, this))))
            (snd (run writes (step (CallSetOperator a) (mem, this)))) input region output
          = DynamicThreadedGenerateData nt mem (snd (step (CallSetOperator a) (mem, this))) input region output
       \<and> m_MTime this < m_MTime (snd (step (CallSetOperator a) (mem, this)))"
proof -
  let ?s1 = "step (CallSetOperator a) (mem, this)"
  from run_kernel_writes [OF assms, of ?s1]
  have same: "snd (run writes ?s1) = snd ?s1"
    and "boundaryConditionAt (fst (run writes ?s1)) = boundaryConditionAt mem"
    by simp_all
  then have deref: "dereference (fst (run writes ?s1)) p = dereference mem p" for p
    by (intro dereference_same)
  have s1: "snd ?s1 = SetOperator (kernelAt mem a) this" by simp
  have 1: "GetOperator (snd ?s1) = kernelAt mem a"
    unfolding s1 by (simp add: GetOperator_def SetOperator_def Modified_def)
  have 2: "GetOperator (snd (run writes ?s1)) = kernelAt mem a"
    unfolding same by (rule 1)
  have 3: "DynamicThreadedGenerateData nt (fst (run writes ?s1)) (snd (run writes ?s1)) input region output
         = DynamicThreadedGenerateData nt mem (snd ?s1) input region output"
    unfolding DynamicThreadedGenerateData_def same deref by (rule refl)
  have 4: "m_MTime this < m_MTime (snd ?s1)"
    unfolding s1 by (simp add: SetOperator_def Modified_def)
  from 1 2 3 4 show ?thesis by blast
qed

theorem SetOperator_private_copy_witness:
  "list_all isKernelWrite [CallerWritesKernel 0 ramp3 :: (int, int) action]
   \<and> kernelAt callerObjects 0 = box3
   \<and> kernelAt (fst (run [CallerWritesKernel 0 ramp3]
                 (step (CallSetOperator 0) (callerObjects, constructor uninitialised)))) 0 = ramp3
   \<and> GetOperator (snd (run [CallerWritesKernel 0 ramp3]
                 (step (CallSetOperator 0) (callerObjects, constructor uninitialised)))) = box3
   \<and> m_MTime (constructor uninitialised)
       < m_MTime (snd (step (CallSetOperator 0) (callerObjects, constructor uninitialised)))"
proof -
  have w: "list_all isKernelWrite [CallerWritesKernel 0 ramp3 :: (int, int) action]" by simp
  have k: "kernelAt callerObjects 0 = box3" by (simp add: callerObjects_def)
  have m: "kernelAt (fst (run [CallerWritesKernel 0 ramp3]
                 (step (CallSetOperator 0) (callerObjects, constructor uninitialised)))) 0 = ramp3"
    by (simp add: run_def)
  from SetOperator_private_copy [OF w, of 0 callerObjects "constructor uninitialised"
      exactInt grid12345 "[(0, 5)]" blank5] w k m
  show ?thesis by simp
qed

text \<open>
  Claim C9. Right after construction \<open>GetBoundaryCondition()\<close> returns the address of the
  member \<open>m_DefaultBoundaryCondition\<close>; so it does after any calls and caller writes none
  of which is \<open>OverrideBoundaryCondition\<close>: the pointer is not null and denotes the
  zero-flux Neumann condition. After \<open>OverrideBoundaryCondition(p)\<close>, and until the next
  override, \<open>GetBoundaryCondition()\<close> returns exactly \<open>p\<close>, also when \<open>p\<close> is null.
\<close>

theorem boundary_condition_pointer:
  "GetBoundaryCondition (constructor raw) = address_of_m_DefaultBoundaryCondition
   \<and> (\<not> list_ex isOverride acts \<longrightarrow>
        GetBoundaryCondition (snd (run acts (mem, constructor raw))) = address_of_m_DefaultBoundaryCondition
        \<and> GetBoundaryCondition (snd (run acts (mem, constructor raw))) \<noteq> nullptr
        \<and> dereference (fst (run acts (mem, constructor raw)))
             (GetBoundaryCondition (snd (run acts (mem, constructor raw)))) = Some ZeroFluxNeumannBoundaryCondition)
   \<and> GetBoundaryCondition (OverrideBoundaryCondition p this) = p
   \<and> GetBoundaryCondition (OverrideBoundaryCondition nullptr this) = nullptr
   \<and> (\<not> list_ex isOverride later \<longrightarrow>
        GetBoundaryCondition (snd (run later (step (CallOverrideBoundaryCondition p) s))) = p)"
proof -
  have a: "GetBoundaryCondition (constructor raw) = address_of_m_DefaultBoundaryCondition"
    by (simp add: GetBoundaryCondition_def constructor_def)
  have b: "GetBoundaryCondition (snd (run acts (mem, constructor raw))) = address_of_m_DefaultBoundaryCondition"
    if "\<not> list_ex isOverride acts"
    using run_no_override [OF that, of "(mem, constructor raw)"]
    by (simp add: GetBoundaryCondition_def constructor_def)
  have c: "GetBoundaryCondition (OverrideBoundaryCondition q this) = q" for q
    by (simp add: GetBoundaryCondition_def OverrideBoundaryCondition_def)
  have d: "GetBoundaryCondition (snd (run later (step (CallOverrideBoundaryCondition p) s))) = p"
    if "\<not> list_ex isOverride later"
    using run_no_override [OF that, of "step (CallOverrideBoundaryCondition p) s"]
    by (cases s) (simp add: GetBoundaryCondition_def OverrideBoundaryCondition_def)
  show ?thesis using a b c d by (simp add: dereference_def)
qed

theorem boundary_condition_pointer_witness:
  "\<not> list_ex isOverride [CallSetOperator 0, CallerWritesKernel 0 ramp3 :: (int, int) action]
   \<and> GetBoundaryCondition (snd (run [CallSetOperator 0, CallerWritesKernel 0 ramp3]
          (callerObjects, constructor uninitialised))) = address_of_m_DefaultBoundaryCondition
   \<and> GetBoundaryCondition (snd (run [CallSetOperator 0]
          (step (CallOverrideBoundaryCondition nullptr) (callerObjects, constructor uninitialised)))) = nullptr
   \<and> GetBoundaryCondition (snd (run [CallSetOperator 0]
          (step (CallOverrideBoundaryCondition (address_of_caller_object 3))
             (callerObjects, constructor uninitialised)))) = address_of_caller_object 3"
proof -
  have a: "\<not> list_ex isOverride [CallSetOperator 0, CallerWritesKernel 0 ramp3 :: (int, int) action]"
    by simp
  have b: "\<not> list_ex isOverride [CallSetOperator 0 :: (int, int) action]" by simp
  from boundary_condition_pointer [of uninitialised
      "[CallSetOperator 0, CallerWritesKernel 0 ramp3]" callerObjects _ _ "[CallSetOperator 0]"]
    a b
  show ?thesis by blast
qed

end
